theory Spec2Isabelle
  imports Main "HOL-Library.Multiset"
begin

section \<open>Strings: the functions of Go's \<open>strings\<close> package that main.go calls\<close>

text \<open>
  A Go string is a sequence of bytes, here a \<open>char list\<close>. \<open>strings.HasPrefix\<close>,
  \<open>strings.TrimPrefix\<close> and \<open>strings.Contains\<close> compare bytes.
\<close>

fun HasPrefix :: "string \<Rightarrow> string \<Rightarrow> bool" where
  "HasPrefix s [] = True"
| "HasPrefix [] (p # ps) = False"
| "HasPrefix (c # cs) (p # ps) = (c = p \<and> HasPrefix cs ps)"

definition TrimPrefix :: "string \<Rightarrow> string \<Rightarrow> string" where
  "TrimPrefix s p = (if HasPrefix s p then drop (length p) s else s)"

fun Contains :: "string \<Rightarrow> string \<Rightarrow> bool" where
  "Contains [] sub = (sub = [])"
| "Contains (c # cs) sub = (HasPrefix (c # cs) sub \<or> Contains cs sub)"

text \<open>
  \<open>strings.TrimSpace\<close> removes the leading and the trailing runes for which
  \<open>unicode.IsSpace\<close> holds: it is \<open>TrimRightFunc(TrimLeftFunc(s, IsSpace), IsSpace)\<close>, with a
  fast path for ASCII that computes the same. \<open>space_runes\<close> lists the UTF-8 encodings of
  these runes: U+0009 to U+000D, U+0020, U+0085, U+00A0, U+1680, U+2000 to U+200A, U+2028,
  U+2029, U+202F, U+205F and U+3000. A byte sequence that is not such an encoding decodes to
  another rune (or to the replacement rune), which is not a space, and the trimming stops.
\<close>

definition space_runes :: "string list" where
  "space_runes =
    [[CHR 0x09], [CHR 0x0A], [CHR 0x0B], [CHR 0x0C], [CHR 0x0D], [CHR 0x20],
     [CHR 0xC2, CHR 0x85], [CHR 0xC2, CHR 0xA0],
     [CHR 0xE1, CHR 0x9A, CHR 0x80],
     [CHR 0xE2, CHR 0x80, CHR 0x80], [CHR 0xE2, CHR 0x80, CHR 0x81],
     [CHR 0xE2, CHR 0x80, CHR 0x82], [CHR 0xE2, CHR 0x80, CHR 0x83],
     [CHR 0xE2, CHR 0x80, CHR 0x84], [CHR 0xE2, CHR 0x80, CHR 0x85],
     [CHR 0xE2, CHR 0x80, CHR 0x86], [CHR 0xE2, CHR 0x80, CHR 0x87],
     [CHR 0xE2, CHR 0x80, CHR 0x88], [CHR 0xE2, CHR 0x80, CHR 0x89],
     [CHR 0xE2, CHR 0x80, CHR 0x8A],
     [CHR 0xE2, CHR 0x80, CHR 0xA8], [CHR 0xE2, CHR 0x80, CHR 0xA9],
     [CHR 0xE2, CHR 0x80, CHR 0xAF],
     [CHR 0xE2, CHR 0x81, CHR 0x9F],
     [CHR 0xE3, CHR 0x80, CHR 0x80]]"

text \<open>
  \<open>drop_runes ps s\<close> removes from the front of \<open>s\<close> every leading occurrence of one of the
  byte sequences \<open>ps\<close>. The recursive call drops the matched sequence: its first byte \<open>c\<close>
  and \<open>length p - 1\<close> further bytes.
\<close>

fun drop_runes :: "string list \<Rightarrow> string \<Rightarrow> string" where
  "drop_runes ps [] = []"
| "drop_runes ps (c # cs) =
     (case List.find (\<lambda>p. p \<noteq> [] \<and> HasPrefix (c # cs) p) ps of
        None \<Rightarrow> c # cs
      | Some p \<Rightarrow> drop_runes ps (drop (length p - 1) cs))"

definition TrimLeftSpace :: "string \<Rightarrow> string" where
  "TrimLeftSpace s = drop_runes space_runes s"

text \<open>The trailing runes are the leading ones of the reversed string, encodings reversed.\<close>

definition TrimRightSpace :: "string \<Rightarrow> string" where
  "TrimRightSpace s = rev (drop_runes (map rev space_runes) (rev s))"

definition TrimSpace :: "string \<Rightarrow> string" where
  "TrimSpace s = TrimRightSpace (TrimLeftSpace s)"

section \<open>Data model\<close>

text \<open>
  The structs of main.go. \<open>CreatedAt\<close> is the value of SQLite's \<open>CURRENT_TIMESTAMP\<close> at the
  insertion, in seconds. The field names of the two request structs carry a prefix, since a
  field name is global in a theory.
\<close>

type_synonym time = nat

record Link =
  Slug :: string
  URL :: string
  CreatedAt :: time

record AddLinkRequest =
  add_Slug :: string
  add_URL :: string

record RemoveLinkRequest =
  remove_Slug :: string

text \<open>
  The package variables \<open>db\<close>, \<open>adminUser\<close> and \<open>adminPass\<close>. The database has the one table
  \<open>links\<close> that \<open>initDB\<close> creates; \<open>db\<close> is its rows, oldest insertion first.
\<close>

record Globals =
  db :: "Link list"
  adminUser :: string
  adminPass :: string

text \<open>
  Go errors. \<open>getLink\<close> compares an error with \<open>sql.ErrNoRows\<close>; the handlers only look at
  the message, given by \<open>Error\<close>.
\<close>

datatype error = ErrNoRows | Err string

fun Error :: "error \<Rightarrow> string" where
  "Error ErrNoRows = ''sql: no rows in result set''"
| "Error (Err msg) = msg"

text \<open>
  What a handler takes from outside the program while it serves one request: the clock that
  SQLite reads for \<open>CURRENT_TIMESTAMP\<close>, and the failures of the database driver that do not
  depend on the table (I/O, locking, a closed connection). \<open>exec_err\<close> is the error of
  \<open>db.Exec\<close>, \<open>db.Query\<close> or \<open>db.QueryRow\<close>, when the statement does not run; \<open>result_err\<close>
  is the error of reading its result (\<open>Scan\<close>, \<open>rows.Err\<close>, \<open>RowsAffected\<close>).
\<close>

record Env =
  now :: time
  exec_err :: "error option"
  result_err :: "error option"

text \<open>
  The request as a handler reads it: \<open>r.Method\<close>, \<open>r.URL.Path\<close>, the result of
  \<open>r.BasicAuth()\<close> (\<open>None\<close> when its \<open>ok\<close> is false), and the result of decoding the body
  as JSON into the handler's request struct (\<open>None\<close> when \<open>Decode\<close> returns an error).
\<close>

record 'b Request =
  Method :: string
  Path :: string
  BasicAuth :: "(string \<times> string) option"
  Body :: "'b option"

text \<open>
  The response: the status code, the headers that the program sets itself (\<open>Location\<close> for
  the redirect), and the body. Log lines are not modelled.
\<close>

datatype body =
    Text string
  | Json "(string \<times> string) list"
  | Listing "Link list"
  | RedirectPage string

record Response =
  status :: nat
  headers :: "(string \<times> string) list"
  body :: body

type_synonym 'b handler = "Env \<Rightarrow> 'b Request \<Rightarrow> Globals \<Rightarrow> Response \<times> Globals"

definition StatusOK :: nat where "StatusOK = 200"
definition StatusCreated :: nat where "StatusCreated = 201"
definition StatusFound :: nat where "StatusFound = 302"
definition StatusBadRequest :: nat where "StatusBadRequest = 400"
definition StatusUnauthorized :: nat where "StatusUnauthorized = 401"
definition StatusNotFound :: nat where "StatusNotFound = 404"
definition StatusMethodNotAllowed :: nat where "StatusMethodNotAllowed = 405"
definition StatusConflict :: nat where "StatusConflict = 409"
definition StatusInternalServerError :: nat where "StatusInternalServerError = 500"

definition MethodPost :: string where "MethodPost = ''POST''"

text \<open>
  \<open>http.Error\<close>, \<open>http.NotFound\<close> and \<open>http.Redirect\<close> of \<open>net/http\<close>: the status code, the
  message, and the headers \<open>hs\<close> that the handler has set before (the content type that
  \<open>http.Error\<close> adds itself is left out).
\<close>

definition http_Error :: "(string \<times> string) list \<Rightarrow> string \<Rightarrow> nat \<Rightarrow> Response" where
  "http_Error hs msg code = \<lparr>status = code, headers = hs, body = Text msg\<rparr>"

definition http_NotFound :: Response where
  "http_NotFound = http_Error [] ''404 page not found'' StatusNotFound"

definition http_Redirect :: "string \<Rightarrow> nat \<Rightarrow> Response" where
  "http_Redirect url code = \<lparr>status = code, headers = [(''Location'', url)], body = RedirectPage url\<rparr>"

section \<open>The store: the SQL statements of main.go on the table \<open>links\<close>\<close>

text \<open>
  \<open>SELECT ... WHERE slug = ?\<close> scanned by \<open>QueryRow(...).Scan\<close>: the row with this slug, or
  \<open>sql.ErrNoRows\<close>.
\<close>

definition QueryRow_Scan :: "Env \<Rightarrow> Link list \<Rightarrow> string \<Rightarrow> error + Link" where
  "QueryRow_Scan env rows slug =
     (case exec_err env of
        Some e \<Rightarrow> Inl e
      | None \<Rightarrow>
          (case List.find (\<lambda>l. Slug l = slug) rows of
             None \<Rightarrow> Inl ErrNoRows
           | Some l \<Rightarrow> (case result_err env of Some e \<Rightarrow> Inl e | None \<Rightarrow> Inr l)))"

definition getLink :: "Env \<Rightarrow> string \<Rightarrow> Globals \<Rightarrow> error + Link" where
  "getLink env slug g =
     (case QueryRow_Scan env (db g) slug of
        Inl err \<Rightarrow> (if err = ErrNoRows then Inl (Err ''link not found'') else Inl err)
      | Inr link \<Rightarrow> Inr link)"

text \<open>
  \<open>ORDER BY created_at DESC\<close>: an insertion sort on \<open>CreatedAt\<close>, largest first. SQL leaves
  the order of rows with equal \<open>created_at\<close> open; here they keep their table order.
\<close>

fun insert_desc :: "Link \<Rightarrow> Link list \<Rightarrow> Link list" where
  "insert_desc l [] = [l]"
| "insert_desc l (x # xs) =
     (if CreatedAt x \<le> CreatedAt l then l # x # xs else x # insert_desc l xs)"

definition order_by_created_at_desc :: "Link list \<Rightarrow> Link list" where
  "order_by_created_at_desc rows = foldr insert_desc rows []"

definition getAllLinks :: "Env \<Rightarrow> Globals \<Rightarrow> error + Link list" where
  "getAllLinks env g =
     (case exec_err env of
        Some err \<Rightarrow> Inl err
      | None \<Rightarrow>
          (case result_err env of
             Some err \<Rightarrow> Inl err
           | None \<Rightarrow> Inr (order_by_created_at_desc (db g))))"

text \<open>
  \<open>INSERT INTO links (slug, url) VALUES (?, ?)\<close>: \<open>slug\<close> is the primary key, so the statement
  fails on a slug that the table has, with the message of the SQLite driver; otherwise the
  row is added with \<open>created_at\<close> the current time.
\<close>

definition unique_violation :: error where
  "unique_violation = Err ''constraint failed: UNIQUE constraint failed: links.slug (1555)''"

definition addLink :: "Env \<Rightarrow> string \<Rightarrow> string \<Rightarrow> Globals \<Rightarrow> error option \<times> Globals" where
  "addLink env slug url g =
     (case exec_err env of
        Some err \<Rightarrow> (Some err, g)
      | None \<Rightarrow>
          if list_ex (\<lambda>l. Slug l = slug) (db g) then (Some unique_violation, g)
          else (None, g\<lparr>db := db g @ [\<lparr>Slug = slug, URL = url, CreatedAt = now env\<rparr>]\<rparr>))"

text \<open>
  \<open>DELETE FROM links WHERE slug = ?\<close>, then \<open>RowsAffected\<close>: the rows are deleted when
  \<open>db.Exec\<close> returns no error, also when reading the count fails afterwards.
\<close>

definition removeLink :: "Env \<Rightarrow> string \<Rightarrow> Globals \<Rightarrow> error option \<times> Globals" where
  "removeLink env slug g =
     (case exec_err env of
        Some err \<Rightarrow> (Some err, g)
      | None \<Rightarrow>
          (let n = length (filter (\<lambda>l. Slug l = slug) (db g));
               g' = g\<lparr>db := filter (\<lambda>l. Slug l \<noteq> slug) (db g)\<rparr>
           in case result_err env of
                Some err \<Rightarrow> (Some err, g')
              | None \<Rightarrow> if n = 0 then (Some (Err ''not found''), g') else (None, g')))"

section \<open>Validation\<close>

text \<open>
  \<open>url.Parse\<close> belongs to Go's standard library, not to this repository, and its result
  depends on the Go release: it is the parameter \<open>parse\<close> of \<open>isValidURL\<close> and of the
  handler that calls it. Of the parsed URL the program reads \<open>Scheme\<close> and \<open>Host\<close>.
\<close>

record url_URL =
  Scheme :: string
  Host :: string

type_synonym url_Parse = "string \<Rightarrow> error + url_URL"

definition isValidURL :: "url_Parse \<Rightarrow> string \<Rightarrow> bool" where
  "isValidURL parse urlStr =
     (if \<not> HasPrefix urlStr ''http://'' \<and> \<not> HasPrefix urlStr ''https://'' then False
      else case parse urlStr of
             Inl err \<Rightarrow> False
           | Inr parsedURL \<Rightarrow> Scheme parsedURL \<noteq> '''' \<and> Host parsedURL \<noteq> '''')"

section \<open>Handlers\<close>

text \<open>
  A handler takes the request and the globals and returns the response and the globals. Each
  early \<open>return\<close> of the source is a branch. In \<open>handleListLinks\<close> the template is a
  constant that parses, and an error of its execution is only logged after the status has
  been sent: the answer to a successful query is 200 with the listing of the links.
\<close>

definition handleListLinks :: "'b handler" where
  "handleListLinks env r g =
     (case getAllLinks env g of
        Inl err \<Rightarrow> (http_Error [] ''Internal server error'' StatusInternalServerError, g)
      | Inr links \<Rightarrow>
          (\<lparr>status = StatusOK, headers = [(''Content-Type'', ''text/html; charset=utf-8'')],
            body = Listing links\<rparr>, g))"

definition handleRoot :: "'b handler" where
  "handleRoot env r g =
     (let path = TrimPrefix (Path r) ''/'' in
      if path = '''' then handleListLinks env r g
      else let slug = path in
        case getLink env slug g of
          Inl err \<Rightarrow> (http_NotFound, g)
        | Inr link \<Rightarrow> (http_Redirect (URL link) StatusFound, g))"

definition handleAdminAdd :: "url_Parse \<Rightarrow> AddLinkRequest handler" where
  "handleAdminAdd parse env r g =
     (if Method r \<noteq> MethodPost then
        (http_Error [] ''Method not allowed'' StatusMethodNotAllowed, g)
      else case Body r of
        None \<Rightarrow> (http_Error [] ''Invalid JSON'' StatusBadRequest, g)
      | Some req \<Rightarrow>
          let slug = TrimSpace (add_Slug req) in
          if slug = '''' \<or> slug = ''admin'' then
            (http_Error [] ''Invalid slug'' StatusBadRequest, g)
          else
            let url = TrimSpace (add_URL req) in
            if \<not> isValidURL parse url then
              (http_Error [] ''Invalid URL - must start with http:// or https://''
                 StatusBadRequest, g)
            else
              (case addLink env slug url g of
                (Some err, g') \<Rightarrow>
                  if Contains (Error err) ''UNIQUE constraint'' then
                    (http_Error [] ''Slug already exists'' StatusConflict, g')
                  else (http_Error [] ''Internal server error'' StatusInternalServerError, g')
              | (None, g') \<Rightarrow>
                  (\<lparr>status = StatusCreated,
                    headers = [(''Content-Type'', ''application/json'')],
                    body = Json [(''status'', ''created''), (''slug'', slug), (''url'', url)]\<rparr>,
                   g')))"

definition handleAdminRemove :: "RemoveLinkRequest handler" where
  "handleAdminRemove env r g =
     (if Method r \<noteq> MethodPost then
        (http_Error [] ''Method not allowed'' StatusMethodNotAllowed, g)
      else case Body r of
        None \<Rightarrow> (http_Error [] ''Invalid JSON'' StatusBadRequest, g)
      | Some req \<Rightarrow>
          let slug = TrimSpace (remove_Slug req) in
          if slug = '''' \<or> slug = ''admin'' then
            (http_Error [] ''Invalid slug'' StatusBadRequest, g)
          else
            (case removeLink env slug g of
              (Some err, g') \<Rightarrow>
                if Contains (Error err) ''not found'' then
                  (http_Error [] ''Slug not found'' StatusNotFound, g')
                else (http_Error [] ''Internal server error'' StatusInternalServerError, g')
            | (None, g') \<Rightarrow>
                (\<lparr>status = StatusOK,
                  headers = [(''Content-Type'', ''application/json'')],
                  body = Json [(''status'', ''removed''), (''slug'', slug)]\<rparr>,
                 g')))"

definition basicAuth :: "'b handler \<Rightarrow> 'b handler" where
  "basicAuth next env r g =
     (if adminUser g = '''' \<or> adminPass g = '''' then next env r g
      else case BasicAuth r of
        None \<Rightarrow>
          (http_Error [(''WWW-Authenticate'', ''Basic realm=\"Admin Area\"'')]
             ''Unauthorized'' StatusUnauthorized, g)
      | Some (user, pass) \<Rightarrow>
          if user \<noteq> adminUser g \<or> pass \<noteq> adminPass g then
            (http_Error [(''WWW-Authenticate'', ''Basic realm=\"Admin Area\"'')]
               ''Unauthorized'' StatusUnauthorized, g)
          else next env r g)"


section \<open>The server: the routes that \<open>main\<close> registers\<close>

text \<open>
  \<open>main\<close> registers \<open>handleRoot\<close> on \<open>/\<close>, \<open>basicAuth(handleAdminAdd)\<close> on \<open>/admin/add\<close> and
  \<open>basicAuth(handleAdminRemove)\<close> on \<open>/admin/remove\<close>. A request that the server receives
  is one of these three, with what the handler takes from outside while it serves it.
\<close>

datatype event =
    Root Env "unit Request"
  | AdminAdd Env "AddLinkRequest Request"
  | AdminRemove Env "RemoveLinkRequest Request"

fun serve :: "url_Parse \<Rightarrow> event \<Rightarrow> Globals \<Rightarrow> Response \<times> Globals" where
  "serve parse (Root env r) g = handleRoot env r g"
| "serve parse (AdminAdd env r) g = basicAuth (handleAdminAdd parse) env r g"
| "serve parse (AdminRemove env r) g = basicAuth (handleAdminRemove) env r g"

fun serve_all :: "url_Parse \<Rightarrow> event list \<Rightarrow> Globals \<Rightarrow> Globals" where
  "serve_all parse [] g = g"
| "serve_all parse (e # es) g = serve_all parse es (snd (serve parse e g))"

text \<open>The program after \<open>initDB\<close> on a new database file: the table is empty.\<close>

definition start :: "string \<Rightarrow> string \<Rightarrow> Globals" where
  "start user pass = \<lparr>db = [], adminUser = user, adminPass = pass\<rparr>"

section \<open>Concrete inputs\<close>

text \<open>
  The values from which the examples below are built: the surroundings of a request at time
  \<open>t\<close> in which the driver does not fail, the two admin requests, and a request for a path.
\<close>

definition quiet :: "time \<Rightarrow> Env" where
  "quiet t = \<lparr>now = t, exec_err = None, result_err = None\<rparr>"

definition failing :: "time \<Rightarrow> error \<Rightarrow> Env" where
  "failing t e = \<lparr>now = t, exec_err = Some e, result_err = None\<rparr>"

definition add_request ::
  "string \<Rightarrow> (string \<times> string) option \<Rightarrow> string \<Rightarrow> string \<Rightarrow> AddLinkRequest Request" where
  "add_request m auth slug url =
     \<lparr>Method = m, Path = ''/admin/add'', BasicAuth = auth,
      Body = Some \<lparr>add_Slug = slug, add_URL = url\<rparr>\<rparr>"

definition remove_request ::
  "string \<Rightarrow> (string \<times> string) option \<Rightarrow> string \<Rightarrow> RemoveLinkRequest Request" where
  "remove_request m auth slug =
     \<lparr>Method = m, Path = ''/admin/remove'', BasicAuth = auth,
      Body = Some \<lparr>remove_Slug = slug\<rparr>\<rparr>"

definition get_request :: "string \<Rightarrow> unit Request" where
  "get_request p = \<lparr>Method = ''GET'', Path = p, BasicAuth = None, Body = None\<rparr>"

text \<open>
  An instance of the parameter \<open>parse\<close> for the examples. On a string of the form
  \<open>scheme://host\<close>, followed by nothing or by \<open>/\<close>, \<open>?\<close> or \<open>#\<close> and the rest, it returns
  the scheme and the host as \<open>url.Parse\<close> does when the host has no user information, no
  port and no escape; on the malformed strings it reports an error. The theorems hold for
  every \<open>parse\<close>; only the examples use this one.
\<close>

definition parse_scheme_host :: url_Parse where
  "parse_scheme_host rawURL =
     (let scheme = takeWhile (\<lambda>c. c \<noteq> CHR '':'') rawURL;
          rest = drop (length scheme) rawURL
      in if HasPrefix rest ''://'' then
           Inr \<lparr>Scheme = scheme,
                Host = takeWhile (\<lambda>c. c \<noteq> CHR ''/'' \<and> c \<noteq> CHR ''?'' \<and> c \<noteq> CHR ''#'')
                         (drop 3 rest)\<rparr>
         else Inl (Err ''parse: missing protocol scheme''))"


section \<open>The invariant of the table\<close>

text \<open>
  What holds of every row that \<open>handleAdminAdd\<close> inserts: the slug has passed the validation
  and is trimmed, the URL is not empty.
\<close>

definition stored_ok :: "Link \<Rightarrow> bool" where
  "stored_ok l \<longleftrightarrow> Slug l \<noteq> '''' \<and> Slug l \<noteq> ''admin'' \<and> TrimSpace (Slug l) = Slug l
      \<and> URL l \<noteq> ''''"

section \<open>Lemmas\<close>

lemmas Status_defs = StatusOK_def StatusCreated_def StatusFound_def StatusBadRequest_def
  StatusUnauthorized_def StatusNotFound_def StatusMethodNotAllowed_def StatusConflict_def
  StatusInternalServerError_def

subsection \<open>Prefixes\<close>

lemma HasPrefix_iff: "HasPrefix s p \<longleftrightarrow> (\<exists>t. s = p @ t)"
  by (induction s p rule: HasPrefix.induct) auto

lemma HasPrefix_take: "HasPrefix (take n s) p \<Longrightarrow> HasPrefix s p"
  unfolding HasPrefix_iff
  by (metis append_take_drop_id append.assoc)

lemma HasPrefix_nonempty: "HasPrefix s p \<Longrightarrow> p \<noteq> [] \<Longrightarrow> s \<noteq> []"
  by (cases s; cases p) auto

subsection \<open>Trimming\<close>

lemma drop_runes_fixed:
  "List.find (\<lambda>p. p \<noteq> [] \<and> HasPrefix s p) ps = None \<Longrightarrow> drop_runes ps s = s"
  by (cases s) auto

lemma drop_runes_no_prefix:
  "List.find (\<lambda>p. p \<noteq> [] \<and> HasPrefix (drop_runes ps s) p) ps = None"
proof (induction ps s rule: drop_runes.induct)
  case (1 ps)
  show ?case by (simp add: find_None_iff) (metis HasPrefix_nonempty)
next
  case (2 ps c cs)
  show ?case
  proof (cases "List.find (\<lambda>p. p \<noteq> [] \<and> HasPrefix (c # cs) p) ps")
    case None
    then show ?thesis by simp
  next
    case (Some p)
    with 2 show ?thesis by simp
  qed
qed

lemma drop_runes_idem: "drop_runes ps (drop_runes ps s) = drop_runes ps s"
  by (rule drop_runes_fixed) (rule drop_runes_no_prefix)

lemma drop_runes_suffix: "\<exists>n. drop_runes ps s = drop n s"
proof (induction ps s rule: drop_runes.induct)
  case (1 ps)
  show ?case by simp
next
  case (2 ps c cs)
  show ?case
  proof (cases "List.find (\<lambda>p. p \<noteq> [] \<and> HasPrefix (c # cs) p) ps")
    case None
    then have "drop_runes ps (c # cs) = drop 0 (c # cs)" by simp
    then show ?thesis by blast
  next
    case (Some p)
    with 2 obtain n where "drop_runes ps (drop (length p - 1) cs) = drop n (drop (length p - 1) cs)"
      by blast
    with Some have "drop_runes ps (c # cs) = drop (Suc (n + (length p - 1))) (c # cs)"
      by (simp add: add.commute)
    then show ?thesis by blast
  qed
qed

lemma TrimRightSpace_take: "\<exists>n. TrimRightSpace s = take n s"
proof -
  obtain n where "drop_runes (map rev space_runes) (rev s) = drop n (rev s)"
    using drop_runes_suffix by blast
  then have "TrimRightSpace s = take (length s - n) s"
    by (simp add: TrimRightSpace_def rev_drop) 
  then show ?thesis by blast
qed

lemma TrimRightSpace_idem: "TrimRightSpace (TrimRightSpace s) = TrimRightSpace s"
  by (simp add: TrimRightSpace_def drop_runes_idem)

lemma TrimLeftSpace_TrimSpace: "TrimLeftSpace (TrimSpace s) = TrimSpace s"
proof -
  obtain n where n: "TrimSpace s = take n (TrimLeftSpace s)"
    unfolding TrimSpace_def using TrimRightSpace_take by blast
  have "List.find (\<lambda>p. p \<noteq> [] \<and> HasPrefix (TrimLeftSpace s) p) space_runes = None"
    unfolding TrimLeftSpace_def by (rule drop_runes_no_prefix)
  then have "List.find (\<lambda>p. p \<noteq> [] \<and> HasPrefix (take n (TrimLeftSpace s)) p) space_runes = None"
    by (auto simp: find_None_iff dest: HasPrefix_take)
  then show ?thesis
    unfolding n TrimLeftSpace_def by (rule drop_runes_fixed)
qed

lemma TrimSpace_idem: "TrimSpace (TrimSpace s) = TrimSpace s"
proof -
  have "TrimSpace (TrimSpace s) = TrimRightSpace (TrimSpace s)"
    by (simp add: TrimSpace_def[of "TrimSpace s"] TrimLeftSpace_TrimSpace)
  also have "\<dots> = TrimSpace s"
    by (simp add: TrimSpace_def TrimRightSpace_idem)
  finally show ?thesis .
qed

subsection \<open>Ordering\<close>

lemma mset_insert_desc: "mset (insert_desc l xs) = add_mset l (mset xs)"
  by (induction xs) auto

lemma set_insert_desc: "set (insert_desc l xs) = insert l (set xs)"
  by (induction xs) auto

lemma sorted_insert_desc:
  "sorted_wrt (\<lambda>a b. CreatedAt b \<le> CreatedAt a) xs
   \<Longrightarrow> sorted_wrt (\<lambda>a b. CreatedAt b \<le> CreatedAt a) (insert_desc l xs)"
  by (induction xs) (auto simp: set_insert_desc)

lemma mset_order_by: "mset (order_by_created_at_desc rows) = mset rows"
  unfolding order_by_created_at_desc_def by (induction rows) (simp_all add: mset_insert_desc)

lemma sorted_order_by:
  "sorted_wrt (\<lambda>a b. CreatedAt b \<le> CreatedAt a) (order_by_created_at_desc rows)"
  unfolding order_by_created_at_desc_def by (induction rows) (simp_all add: sorted_insert_desc)

subsection \<open>What the handlers do to the table\<close>

lemma Contains_unique: "Contains (Error unique_violation) ''UNIQUE constraint''"
  by (simp add: unique_violation_def)

lemma handleAdminAdd_success:
  assumes "Method r = MethodPost" and "Body r = Some req"
    and "TrimSpace (add_Slug req) \<noteq> ''''" and "TrimSpace (add_Slug req) \<noteq> ''admin''"
    and "isValidURL parse (TrimSpace (add_URL req))"
    and "\<not> list_ex (\<lambda>l. Slug l = TrimSpace (add_Slug req)) (db g)"
    and "exec_err env = None"
  shows "handleAdminAdd parse env r g =
    (\<lparr>status = StatusCreated, headers = [(''Content-Type'', ''application/json'')],
      body = Json [(''status'', ''created''), (''slug'', TrimSpace (add_Slug req)),
                   (''url'', TrimSpace (add_URL req))]\<rparr>,
     g\<lparr>db := db g @ [\<lparr>Slug = TrimSpace (add_Slug req), URL = TrimSpace (add_URL req),
                       CreatedAt = now env\<rparr>]\<rparr>)"
  using assms by (simp add: handleAdminAdd_def addLink_def Let_def)

lemma handleAdminAdd_failure:
  assumes "\<not> (\<exists>req. Method r = MethodPost \<and> Body r = Some req
    \<and> TrimSpace (add_Slug req) \<noteq> '''' \<and> TrimSpace (add_Slug req) \<noteq> ''admin''
    \<and> isValidURL parse (TrimSpace (add_URL req))
    \<and> \<not> list_ex (\<lambda>l. Slug l = TrimSpace (add_Slug req)) (db g)
    \<and> exec_err env = None)"
  shows "snd (handleAdminAdd parse env r g) = g
    \<and> status (fst (handleAdminAdd parse env r g)) \<noteq> StatusCreated"
proof (cases "Method r = MethodPost")
  case False
  then show ?thesis by (simp add: handleAdminAdd_def http_Error_def Status_defs)
next
  case post: True
  show ?thesis
  proof (cases "Body r")
    case None
    with post show ?thesis by (simp add: handleAdminAdd_def http_Error_def Status_defs)
  next
    case (Some req)
    show ?thesis
    proof (cases "TrimSpace (add_Slug req) = '''' \<or> TrimSpace (add_Slug req) = ''admin''")
      case True
      with post Some show ?thesis
        by (simp add: handleAdminAdd_def http_Error_def Status_defs)
    next
      case slug: False
      show ?thesis
      proof (cases "isValidURL parse (TrimSpace (add_URL req))")
        case False
        with post Some slug show ?thesis
          by (simp add: handleAdminAdd_def http_Error_def Status_defs)
      next
        case url: True
        obtain e where e: "addLink env (TrimSpace (add_Slug req)) (TrimSpace (add_URL req)) g = (Some e, g)"
          using assms post Some slug url
          by (cases "exec_err env") (auto simp: addLink_def)
        with post Some slug url show ?thesis
          by (simp add: handleAdminAdd_def http_Error_def Status_defs)
      qed
    qed
  qed
qed

lemma handleAdminAdd_created:
  assumes "status (fst (handleAdminAdd parse env r g)) = StatusCreated"
  shows "\<exists>req. Method r = MethodPost \<and> Body r = Some req
    \<and> TrimSpace (add_Slug req) \<noteq> '''' \<and> TrimSpace (add_Slug req) \<noteq> ''admin''
    \<and> isValidURL parse (TrimSpace (add_URL req))
    \<and> \<not> list_ex (\<lambda>l. Slug l = TrimSpace (add_Slug req)) (db g)
    \<and> exec_err env = None"
  using assms handleAdminAdd_failure[of r parse g env] by blast

lemma handleAdminAdd_conflict:
  assumes "Method r = MethodPost" and "Body r = Some req"
    and "TrimSpace (add_Slug req) \<noteq> ''''" and "TrimSpace (add_Slug req) \<noteq> ''admin''"
    and "isValidURL parse (TrimSpace (add_URL req))"
    and "list_ex (\<lambda>l. Slug l = TrimSpace (add_Slug req)) (db g)"
    and "exec_err env = None"
  shows "handleAdminAdd parse env r g = (http_Error [] ''Slug already exists'' StatusConflict, g)"
proof -
  have "addLink env (TrimSpace (add_Slug req)) (TrimSpace (add_URL req)) g
      = (Some unique_violation, g)"
    using assms by (simp add: addLink_def)
  with assms Contains_unique show ?thesis
    by (simp add: handleAdminAdd_def)
qed

lemma isValidURL_nonempty: "isValidURL parse u \<Longrightarrow> u \<noteq> ''''"
  by (auto simp: isValidURL_def split: if_splits)

lemma handleAdminAdd_db:
  "snd (handleAdminAdd parse env r g) = g \<or>
   (\<exists>s u. s \<noteq> '''' \<and> s \<noteq> ''admin'' \<and> TrimSpace s = s \<and> u \<noteq> ''''
      \<and> snd (handleAdminAdd parse env r g) = g\<lparr>db := db g @ [\<lparr>Slug = s, URL = u, CreatedAt = now env\<rparr>]\<rparr>)"
proof (cases "\<exists>req. Method r = MethodPost \<and> Body r = Some req
    \<and> TrimSpace (add_Slug req) \<noteq> '''' \<and> TrimSpace (add_Slug req) \<noteq> ''admin''
    \<and> isValidURL parse (TrimSpace (add_URL req))
    \<and> \<not> list_ex (\<lambda>l. Slug l = TrimSpace (add_Slug req)) (db g)
    \<and> exec_err env = None")
  case False
  then show ?thesis using handleAdminAdd_failure[of r parse g env] by blast
next
  case True
  then obtain req where req: "Method r = MethodPost" "Body r = Some req"
    "TrimSpace (add_Slug req) \<noteq> ''''" "TrimSpace (add_Slug req) \<noteq> ''admin''"
    "isValidURL parse (TrimSpace (add_URL req))"
    "\<not> list_ex (\<lambda>l. Slug l = TrimSpace (add_Slug req)) (db g)"
    "exec_err env = None" by blast
  have "snd (handleAdminAdd parse env r g) =
     g\<lparr>db := db g @ [\<lparr>Slug = TrimSpace (add_Slug req), URL = TrimSpace (add_URL req),
                       CreatedAt = now env\<rparr>]\<rparr>"
    by (simp add: handleAdminAdd_success[OF req])
  moreover have "TrimSpace (TrimSpace (add_Slug req)) = TrimSpace (add_Slug req)"
    by (rule TrimSpace_idem)
  moreover have "TrimSpace (add_URL req) \<noteq> ''''"
    using req(5) by (rule isValidURL_nonempty)
  ultimately show ?thesis using req(3,4) by blast
qed

lemma removeLink_db:
  "snd (removeLink env slug g) = g \<or>
   snd (removeLink env slug g) = g\<lparr>db := filter (\<lambda>l. Slug l \<noteq> slug) (db g)\<rparr>"
  by (cases "exec_err env"; cases "result_err env") (simp_all add: removeLink_def Let_def)

lemma removeLink_None:
  "fst (removeLink env slug g) = None \<Longrightarrow>
   snd (removeLink env slug g) = g\<lparr>db := filter (\<lambda>l. Slug l \<noteq> slug) (db g)\<rparr>"
  by (cases "exec_err env"; cases "result_err env")
     (simp_all add: removeLink_def Let_def split: if_splits)

lemma handleAdminRemove_db:
  "snd (handleAdminRemove env r g) = g \<or>
   (\<exists>s. snd (handleAdminRemove env r g) = g\<lparr>db := filter (\<lambda>l. Slug l \<noteq> s) (db g)\<rparr>)"
proof (cases "Method r = MethodPost")
  case False
  then show ?thesis by (simp add: handleAdminRemove_def)
next
  case post: True
  show ?thesis
  proof (cases "Body r")
    case None
    with post show ?thesis by (simp add: handleAdminRemove_def)
  next
    case (Some req)
    show ?thesis
    proof (cases "TrimSpace (remove_Slug req) = '''' \<or> TrimSpace (remove_Slug req) = ''admin''")
      case True
      with post Some show ?thesis by (simp add: handleAdminRemove_def)
    next
      case False
      have "snd (handleAdminRemove env r g) = snd (removeLink env (TrimSpace (remove_Slug req)) g)"
        using post Some False
        by (cases "removeLink env (TrimSpace (remove_Slug req)) g")
           (simp add: handleAdminRemove_def split: option.splits)
      then show ?thesis
        using removeLink_db[of env "TrimSpace (remove_Slug req)" g] by auto
    qed
  qed
qed

lemma handleAdminRemove_ok:
  assumes "status (fst (handleAdminRemove env r g)) = StatusOK"
  shows "\<exists>req. Body r = Some req \<and>
     snd (handleAdminRemove env r g) = g\<lparr>db := filter (\<lambda>l. Slug l \<noteq> TrimSpace (remove_Slug req)) (db g)\<rparr>"
proof (cases "Method r = MethodPost")
  case False
  with assms show ?thesis by (simp add: handleAdminRemove_def http_Error_def Status_defs)
next
  case post: True
  show ?thesis
  proof (cases "Body r")
    case None
    with post assms show ?thesis by (simp add: handleAdminRemove_def http_Error_def Status_defs)
  next
    case (Some req)
    show ?thesis
    proof (cases "TrimSpace (remove_Slug req) = '''' \<or> TrimSpace (remove_Slug req) = ''admin''")
      case True
      with post Some assms show ?thesis
        by (simp add: handleAdminRemove_def http_Error_def Status_defs)
    next
      case False
      obtain e g' where rl: "removeLink env (TrimSpace (remove_Slug req)) g = (e, g')"
        by (cases "removeLink env (TrimSpace (remove_Slug req)) g")
      have "e = None"
        using assms post Some False rl
        by (cases e) (simp_all add: handleAdminRemove_def http_Error_def Status_defs split: if_splits)
      with rl removeLink_None[of env "TrimSpace (remove_Slug req)" g]
      have "g' = g\<lparr>db := filter (\<lambda>l. Slug l \<noteq> TrimSpace (remove_Slug req)) (db g)\<rparr>"
        by simp
      with post Some False rl \<open>e = None\<close> show ?thesis
        by (simp add: handleAdminRemove_def Let_def)
    qed
  qed
qed

lemma handleRoot_db: "snd (handleRoot env r g) = g"
  by (cases "getLink env (TrimPrefix (Path r) ''/'') g"; cases "getAllLinks env g")
     (simp_all add: handleRoot_def handleListLinks_def Let_def)

lemma basicAuth_cases:
  "basicAuth next env r g = next env r g \<or>
   basicAuth next env r g =
     (http_Error [(''WWW-Authenticate'', ''Basic realm=\"Admin Area\"'')] ''Unauthorized''
        StatusUnauthorized, g)"
  by (cases "BasicAuth r") (auto simp: basicAuth_def)

subsection \<open>The invariant of the table\<close>

lemma serve_stored_ok:
  assumes "list_all stored_ok (db g)"
  shows "list_all stored_ok (db (snd (serve parse e g)))"
proof (cases e)
  case (Root env r)
  with assms show ?thesis by (simp add: handleRoot_db)
next
  case (AdminAdd env r)
  have "list_all stored_ok (db (snd (handleAdminAdd parse env r g)))"
    using handleAdminAdd_db[of parse env r g] assms by (auto simp: stored_ok_def)
  with assms AdminAdd show ?thesis
    using basicAuth_cases[of "handleAdminAdd parse" env r g] by auto
next
  case (AdminRemove env r)
  have "list_all stored_ok (db (snd (handleAdminRemove env r g)))"
    using handleAdminRemove_db[of env r g] assms by (auto simp: list_all_iff)
  with assms AdminRemove show ?thesis
    using basicAuth_cases[of "handleAdminRemove" env r g] by auto
qed

lemma serve_all_stored_ok:
  "list_all stored_ok (db g) \<Longrightarrow> list_all stored_ok (db (serve_all parse es g))"
  by (induction es arbitrary: g) (simp_all add: serve_stored_ok)

lemma reachable_stored_ok: "list_all stored_ok (db (serve_all parse es (start user pass)))"
  by (rule serve_all_stored_ok) (simp add: start_def)

lemma getLink_absent:
  assumes "\<not> list_ex (\<lambda>l. Slug l = slug) (db g)" and "exec_err env = None"
  shows "getLink env slug g = Inl (Err ''link not found'')"
proof -
  have "List.find (\<lambda>l. Slug l = slug) (db g) = None"
    using assms(1) by (simp add: find_None_iff list_ex_iff)
  with assms(2) show ?thesis by (simp add: getLink_def QueryRow_Scan_def)
qed

lemma find_append_new:
  "\<not> list_ex P xs \<Longrightarrow> P x \<Longrightarrow> List.find P (xs @ [x]) = Some x"
  by (induction xs) auto

lemma getLink_added:
  assumes "\<not> list_ex (\<lambda>l. Slug l = slug) (db g)"
    and "exec_err env = None" and "result_err env = None"
  shows "getLink env slug (g\<lparr>db := db g @ [\<lparr>Slug = slug, URL = url, CreatedAt = t\<rparr>]\<rparr>)
     = Inr \<lparr>Slug = slug, URL = url, CreatedAt = t\<rparr>"
proof -
  have "List.find (\<lambda>l. Slug l = slug) (db g @ [\<lparr>Slug = slug, URL = url, CreatedAt = t\<rparr>])
      = Some \<lparr>Slug = slug, URL = url, CreatedAt = t\<rparr>"
    using assms(1) by (intro find_append_new) simp_all
  with assms(2,3) show ?thesis by (simp add: getLink_def QueryRow_Scan_def)
qed

lemma handleRoot_slug:
  assumes "TrimPrefix (Path r) ''/'' \<noteq> ''''"
  shows "handleRoot env r g =
    (case getLink env (TrimPrefix (Path r) ''/'') g of
       Inl err \<Rightarrow> (http_NotFound, g)
     | Inr link \<Rightarrow> (http_Redirect (URL link) StatusFound, g))"
  using assms by (simp add: handleRoot_def Let_def)

lemma getLink_exec_err: "exec_err env = Some e \<Longrightarrow> \<exists>err. getLink env slug g = Inl err"
  by (simp add: getLink_def QueryRow_Scan_def)

section \<open>The claims\<close>

lemmas example_defs = quiet_def failing_def add_request_def remove_request_def get_request_def
  start_def parse_scheme_host_def MethodPost_def

lemmas trim_defs = TrimSpace_def TrimLeftSpace_def TrimRightSpace_def space_runes_def

text \<open>
  Claim C1, as stated, at a concrete input. The slug \<open>'' wiki ''\<close> and the URL pass the
  validation of add and the store has no entry; add answers 201 and stores the trimmed slug
  \<open>''wiki''\<close>, so that resolving the slug \<open>'' wiki ''\<close> that was sent finds nothing.
\<close>
theorem C1_counterexample:
  "TrimSpace '' wiki '' \<noteq> '''' \<and> TrimSpace '' wiki '' \<noteq> ''admin''
   \<and> isValidURL parse_scheme_host (TrimSpace ''https://wiki.example.com'')
   \<and> \<not> list_ex (\<lambda>l. Slug l = '' wiki '') (db (start '''' ''''))
   \<and> status (fst (handleAdminAdd parse_scheme_host (quiet 5)
         (add_request ''POST'' None '' wiki '' ''https://wiki.example.com'') (start '''' '''')))
       = StatusCreated
   \<and> getLink (quiet 6) '' wiki ''
        (snd (handleAdminAdd parse_scheme_host (quiet 5)
           (add_request ''POST'' None '' wiki '' ''https://wiki.example.com'') (start '''' '''')))
       = Inl (Err ''link not found'')"
  by (simp add: handleAdminAdd_def addLink_def getLink_def QueryRow_Scan_def isValidURL_def Let_def
      example_defs trim_defs)

text \<open>
  Claim C1, amended. For every slug and URL that pass the validation of add (the trimmed slug
  is neither empty nor \<open>admin\<close>, the trimmed URL is valid), on a store with no entry for the
  trimmed slug and with a working driver, add answers 201 Created, and resolving the trimmed
  slug then returns the link whose URL is the trimmed URL that was added.
\<close>
theorem C1_add_then_resolve:
  assumes "Method r = MethodPost" and "Body r = Some req"
    and "TrimSpace (add_Slug req) \<noteq> ''''" and "TrimSpace (add_Slug req) \<noteq> ''admin''"
    and "isValidURL parse (TrimSpace (add_URL req))"
    and "\<not> list_ex (\<lambda>l. Slug l = TrimSpace (add_Slug req)) (db g)"
    and "exec_err env = None"
    and "exec_err env' = None" and "result_err env' = None"
  shows "status (fst (handleAdminAdd parse env r g)) = StatusCreated
    \<and> getLink env' (TrimSpace (add_Slug req)) (snd (handleAdminAdd parse env r g))
        = Inr \<lparr>Slug = TrimSpace (add_Slug req), URL = TrimSpace (add_URL req),
               CreatedAt = now env\<rparr>"
proof -
  note add = handleAdminAdd_success[OF assms(1-7)]
  have "status (fst (handleAdminAdd parse env r g)) = StatusCreated"
    by (simp add: add)
  moreover have "getLink env' (TrimSpace (add_Slug req)) (snd (handleAdminAdd parse env r g))
        = Inr \<lparr>Slug = TrimSpace (add_Slug req), URL = TrimSpace (add_URL req),
               CreatedAt = now env\<rparr>"
    unfolding add snd_conv using assms(6,8,9) by (rule getLink_added)
  ultimately show ?thesis by simp
qed

text \<open>An instance of C1: a slug and a URL sent with spaces around them.\<close>
theorem C1_add_then_resolve_witness:
  "status (fst (handleAdminAdd parse_scheme_host (quiet 5)
      (add_request ''POST'' None '' wiki '' '' https://wiki.example.com '') (start '''' '''')))
     = StatusCreated
   \<and> getLink (quiet 6) ''wiki''
       (snd (handleAdminAdd parse_scheme_host (quiet 5)
          (add_request ''POST'' None '' wiki '' '' https://wiki.example.com '') (start '''' '''')))
     = Inr \<lparr>Slug = ''wiki'', URL = ''https://wiki.example.com'', CreatedAt = 5\<rparr>"
proof -
  let ?r = "add_request ''POST'' None '' wiki '' '' https://wiki.example.com ''"
  let ?req = "\<lparr>add_Slug = '' wiki '', add_URL = '' https://wiki.example.com ''\<rparr>"
  have s: "TrimSpace '' wiki '' = ''wiki''" by (simp add: trim_defs)
  have u: "TrimSpace '' https://wiki.example.com '' = ''https://wiki.example.com''"
    by (simp add: trim_defs)
  have h1: "Method ?r = MethodPost" by (simp add: example_defs)
  have h2: "Body ?r = Some ?req" by (simp add: example_defs)
  have h3: "TrimSpace (add_Slug ?req) \<noteq> ''''" by (simp add: s)
  have h4: "TrimSpace (add_Slug ?req) \<noteq> ''admin''" by (simp add: s)
  have h5: "isValidURL parse_scheme_host (TrimSpace (add_URL ?req))"
    by (simp add: u isValidURL_def example_defs)
  have h6: "\<not> list_ex (\<lambda>l. Slug l = TrimSpace (add_Slug ?req)) (db (start '''' ''''))"
    by (simp add: example_defs)
  have h7: "exec_err (quiet 5) = None" by (simp add: example_defs)
  have h8: "exec_err (quiet 6) = None" by (simp add: example_defs)
  have h9: "result_err (quiet 6) = None" by (simp add: example_defs)
  show ?thesis
    using C1_add_then_resolve[OF h1 h2 h3 h4 h5 h6 h7 h8 h9] by (simp add: s u quiet_def)
qed

text \<open>
  Claim C2. For every add request (a POST whose body decodes): when the trimmed slug is empty
  or is \<open>admin\<close>, or the trimmed URL starts with neither \<open>http://\<close> nor \<open>https://\<close>, or does
  not parse to a scheme and a host that are both non-empty, the answer is 400 Bad Request and
  the store is the one before. This holds whatever the driver would do (\<open>env\<close> is
  arbitrary): the store is not called.
\<close>
theorem C2_add_validation:
  assumes "Method r = MethodPost" and "Body r = Some req"
    and "TrimSpace (add_Slug req) = '''' \<or> TrimSpace (add_Slug req) = ''admin''
       \<or> (\<not> HasPrefix (TrimSpace (add_URL req)) ''http://''
            \<and> \<not> HasPrefix (TrimSpace (add_URL req)) ''https://'')
       \<or> (case parse (TrimSpace (add_URL req)) of
             Inl err \<Rightarrow> True
           | Inr parsedURL \<Rightarrow> Scheme parsedURL = '''' \<or> Host parsedURL = '''')"
  shows "status (fst (handleAdminAdd parse env r g)) = StatusBadRequest
    \<and> snd (handleAdminAdd parse env r g) = g"
proof (cases "TrimSpace (add_Slug req) = '''' \<or> TrimSpace (add_Slug req) = ''admin''")
  case True
  with assms(1,2) show ?thesis by (simp add: handleAdminAdd_def http_Error_def)
next
  case False
  with assms(3) have "\<not> isValidURL parse (TrimSpace (add_URL req))"
    by (auto simp: isValidURL_def split: sum.splits)
  with assms(1,2) False show ?thesis by (simp add: handleAdminAdd_def http_Error_def)
qed

text \<open>
  Instances of C2: the slugs \<open>''''\<close> and \<open>admin\<close>, the URLs \<open>ftp://x.com\<close> and
  \<open>not a url\<close> of the specification, and a URL with an empty host.
\<close>
theorem C2_add_validation_witness:
  "(status (fst (handleAdminAdd parse_scheme_host (failing 5 (Err ''disk I/O error''))
        (add_request ''POST'' None '''' ''https://x.com'') (start ''root'' ''secret'')))
      = StatusBadRequest
    \<and> snd (handleAdminAdd parse_scheme_host (failing 5 (Err ''disk I/O error''))
        (add_request ''POST'' None '''' ''https://x.com'') (start ''root'' ''secret''))
      = start ''root'' ''secret'')
   \<and> (status (fst (handleAdminAdd parse_scheme_host (quiet 5)
        (add_request ''POST'' None ''admin'' ''https://x.com'') (start ''root'' ''secret'')))
      = StatusBadRequest
    \<and> snd (handleAdminAdd parse_scheme_host (quiet 5)
        (add_request ''POST'' None ''admin'' ''https://x.com'') (start ''root'' ''secret''))
      = start ''root'' ''secret'')
   \<and> (status (fst (handleAdminAdd parse_scheme_host (quiet 5)
        (add_request ''POST'' None ''wiki'' ''ftp://x.com'') (start ''root'' ''secret'')))
      = StatusBadRequest
    \<and> snd (handleAdminAdd parse_scheme_host (quiet 5)
        (add_request ''POST'' None ''wiki'' ''ftp://x.com'') (start ''root'' ''secret''))
      = start ''root'' ''secret'')
   \<and> (status (fst (handleAdminAdd parse_scheme_host (quiet 5)
        (add_request ''POST'' None ''wiki'' ''not a url'') (start ''root'' ''secret'')))
      = StatusBadRequest
    \<and> snd (handleAdminAdd parse_scheme_host (quiet 5)
        (add_request ''POST'' None ''wiki'' ''not a url'') (start ''root'' ''secret''))
      = start ''root'' ''secret'')
   \<and> (status (fst (handleAdminAdd parse_scheme_host (quiet 5)
        (add_request ''POST'' None ''wiki'' ''https:///nohost'') (start ''root'' ''secret'')))
      = StatusBadRequest
    \<and> snd (handleAdminAdd parse_scheme_host (quiet 5)
        (add_request ''POST'' None ''wiki'' ''https:///nohost'') (start ''root'' ''secret''))
      = start ''root'' ''secret'')"
proof -
  have post: "Method (add_request ''POST'' None s u) = MethodPost" for s u
    by (simp add: example_defs)
  have body: "Body (add_request ''POST'' None s u) = Some \<lparr>add_Slug = s, add_URL = u\<rparr>" for s u
    by (simp add: example_defs)
  have a: "TrimSpace (add_Slug \<lparr>add_Slug = '''', add_URL = ''https://x.com''\<rparr>) = ''''"
    by (simp add: trim_defs)
  have b: "TrimSpace (add_Slug \<lparr>add_Slug = ''admin'', add_URL = ''https://x.com''\<rparr>) = ''admin''"
    by (simp add: trim_defs)
  have c: "\<not> HasPrefix (TrimSpace (add_URL \<lparr>add_Slug = ''wiki'', add_URL = ''ftp://x.com''\<rparr>)) ''http://''
     \<and> \<not> HasPrefix (TrimSpace (add_URL \<lparr>add_Slug = ''wiki'', add_URL = ''ftp://x.com''\<rparr>)) ''https://''"
    by (simp add: trim_defs)
  have d: "\<not> HasPrefix (TrimSpace (add_URL \<lparr>add_Slug = ''wiki'', add_URL = ''not a url''\<rparr>)) ''http://''
     \<and> \<not> HasPrefix (TrimSpace (add_URL \<lparr>add_Slug = ''wiki'', add_URL = ''not a url''\<rparr>)) ''https://''"
    by (simp add: trim_defs)
  have e: "(case parse_scheme_host (TrimSpace (add_URL \<lparr>add_Slug = ''wiki'', add_URL = ''https:///nohost''\<rparr>)) of
             Inl err \<Rightarrow> True
           | Inr parsedURL \<Rightarrow> Scheme parsedURL = '''' \<or> Host parsedURL = '''')"
    by (simp add: trim_defs example_defs)
  show ?thesis
    using C2_add_validation[OF post body, of "''''" "''https://x.com''" parse_scheme_host
            "failing 5 (Err ''disk I/O error'')" "start ''root'' ''secret''"]
          C2_add_validation[OF post body, of "''admin''" "''https://x.com''" parse_scheme_host
            "quiet 5" "start ''root'' ''secret''"]
          C2_add_validation[OF post body, of "''wiki''" "''ftp://x.com''" parse_scheme_host
            "quiet 5" "start ''root'' ''secret''"]
          C2_add_validation[OF post body, of "''wiki''" "''not a url''" parse_scheme_host
            "quiet 5" "start ''root'' ''secret''"]
          C2_add_validation[OF post body, of "''wiki''" "''https:///nohost''" parse_scheme_host
            "quiet 5" "start ''root'' ''secret''"]
          a b c d e
    by blast
qed

text \<open>
  Claim C3. After an add of slug \<open>s\<close> with URL \<open>u1\<close> that answered 201 Created, a second add
  of \<open>s\<close> with a valid URL \<open>u2\<close> answers 409 Conflict (the driver working) and leaves the
  store as it was: the link stored for the slug is still the one of the first add, with the
  URL \<open>u1\<close> as that add stored it.
\<close>
theorem C3_second_add_conflict:
  assumes "status (fst (handleAdminAdd parse env1 r1 g)) = StatusCreated"
    and "Body r1 = Some \<lparr>add_Slug = s, add_URL = u1\<rparr>"
    and "g1 = snd (handleAdminAdd parse env1 r1 g)"
    and "Method r2 = MethodPost" and "Body r2 = Some \<lparr>add_Slug = s, add_URL = u2\<rparr>"
    and "isValidURL parse (TrimSpace u2)" and "exec_err env2 = None"
    and "exec_err env3 = None" and "result_err env3 = None"
  shows "status (fst (handleAdminAdd parse env2 r2 g1)) = StatusConflict
    \<and> snd (handleAdminAdd parse env2 r2 g1) = g1
    \<and> getLink env3 (TrimSpace s) g1
        = Inr \<lparr>Slug = TrimSpace s, URL = TrimSpace u1, CreatedAt = now env1\<rparr>
    \<and> getLink env3 (TrimSpace s) (snd (handleAdminAdd parse env2 r2 g1))
        = Inr \<lparr>Slug = TrimSpace s, URL = TrimSpace u1, CreatedAt = now env1\<rparr>"
proof -
  let ?req1 = "\<lparr>add_Slug = s, add_URL = u1\<rparr>"
  let ?req2 = "\<lparr>add_Slug = s, add_URL = u2\<rparr>"
  from handleAdminAdd_created[OF assms(1)] assms(2)
  have first: "Method r1 = MethodPost" "TrimSpace (add_Slug ?req1) \<noteq> ''''"
    "TrimSpace (add_Slug ?req1) \<noteq> ''admin''" "isValidURL parse (TrimSpace (add_URL ?req1))"
    "\<not> list_ex (\<lambda>l. Slug l = TrimSpace (add_Slug ?req1)) (db g)" "exec_err env1 = None"
    by auto
  have g1: "g1 = g\<lparr>db := db g @ [\<lparr>Slug = TrimSpace s, URL = TrimSpace u1, CreatedAt = now env1\<rparr>]\<rparr>"
    using handleAdminAdd_success[OF first(1) assms(2) first(2-6)] assms(3) by simp
  have stored: "getLink env3 (TrimSpace s) g1
        = Inr \<lparr>Slug = TrimSpace s, URL = TrimSpace u1, CreatedAt = now env1\<rparr>"
    unfolding g1 using first(5) assms(8,9) by (intro getLink_added) simp_all
  have "list_ex (\<lambda>l. Slug l = TrimSpace (add_Slug ?req2)) (db g1)"
    by (simp add: g1)
  with first(2,3) assms(6)
  have second: "handleAdminAdd parse env2 r2 g1
      = (http_Error [] ''Slug already exists'' StatusConflict, g1)"
    by (intro handleAdminAdd_conflict[OF assms(4,5)] assms(7)) simp_all
  show ?thesis
    using stored by (simp add: second http_Error_def)
qed

text \<open>
  An instance of C3: \<open>wiki\<close> is added twice, first for \<open>https://a.example\<close>, then for
  \<open>https://b.example\<close>.
\<close>
theorem C3_second_add_conflict_witness:
  "status (fst (handleAdminAdd parse_scheme_host (quiet 9)
       (add_request ''POST'' None ''wiki'' ''https://b.example'')
       (snd (handleAdminAdd parse_scheme_host (quiet 5)
          (add_request ''POST'' None ''wiki'' ''https://a.example'') (start '''' '''')))))
     = StatusConflict
   \<and> getLink (quiet 10) ''wiki''
       (snd (handleAdminAdd parse_scheme_host (quiet 9)
         (add_request ''POST'' None ''wiki'' ''https://b.example'')
         (snd (handleAdminAdd parse_scheme_host (quiet 5)
            (add_request ''POST'' None ''wiki'' ''https://a.example'') (start '''' '''')))))
     = Inr \<lparr>Slug = ''wiki'', URL = ''https://a.example'', CreatedAt = 5\<rparr>"
proof -
  let ?r1 = "add_request ''POST'' None ''wiki'' ''https://a.example''"
  let ?r2 = "add_request ''POST'' None ''wiki'' ''https://b.example''"
  let ?g1 = "snd (handleAdminAdd parse_scheme_host (quiet 5) ?r1 (start '''' ''''))"
  have s: "TrimSpace ''wiki'' = ''wiki''" by (simp add: trim_defs)
  have u1: "TrimSpace ''https://a.example'' = ''https://a.example''" by (simp add: trim_defs)
  have u2: "TrimSpace ''https://b.example'' = ''https://b.example''" by (simp add: trim_defs)
  have h1: "status (fst (handleAdminAdd parse_scheme_host (quiet 5) ?r1 (start '''' '''')))
      = StatusCreated"
    by (simp add: handleAdminAdd_def addLink_def isValidURL_def Let_def example_defs s u1)
  have h2: "Body ?r1 = Some \<lparr>add_Slug = ''wiki'', add_URL = ''https://a.example''\<rparr>"
    by (simp add: example_defs)
  have h4: "Method ?r2 = MethodPost" by (simp add: example_defs)
  have h5: "Body ?r2 = Some \<lparr>add_Slug = ''wiki'', add_URL = ''https://b.example''\<rparr>"
    by (simp add: example_defs)
  have h6: "isValidURL parse_scheme_host (TrimSpace ''https://b.example'')"
    by (simp add: u2 isValidURL_def example_defs)
  have h7: "exec_err (quiet 9) = None" by (simp add: example_defs)
  have h8: "exec_err (quiet 10) = None" by (simp add: example_defs)
  have h9: "result_err (quiet 10) = None" by (simp add: example_defs)
  show ?thesis
    using C3_second_add_conflict[OF h1 h2 refl h4 h5 h6 h7 h8 h9] by (simp add: s u1 quiet_def)
qed

text \<open>
  Claim C4. When the admin user name and the admin password are both configured, a request
  whose Basic-Auth credentials are absent or are not the configured pair is answered 401
  Unauthorized, with the globals (the store among them) unchanged. The answer is the same
  for every wrapped handler \<open>next\<close>: it is not invoked.
\<close>
theorem C4_unauthorized:
  assumes "adminUser g \<noteq> ''''" and "adminPass g \<noteq> ''''"
    and "BasicAuth r = None
       \<or> (\<exists>user pass. BasicAuth r = Some (user, pass)
             \<and> (user \<noteq> adminUser g \<or> pass \<noteq> adminPass g))"
  shows "basicAuth next env r g =
      (http_Error [(''WWW-Authenticate'', ''Basic realm=\"Admin Area\"'')] ''Unauthorized''
         StatusUnauthorized, g)
    \<and> status (fst (basicAuth next env r g)) = StatusUnauthorized
    \<and> snd (basicAuth next env r g) = g"
  using assms by (auto simp: basicAuth_def http_Error_def)

text \<open>
  Instances of C4 on the two admin routes: a valid add with a wrong password and a remove
  with no credentials, on a store that holds \<open>wiki\<close>.
\<close>
theorem C4_unauthorized_witness:
  "status (fst (serve parse_scheme_host
       (AdminAdd (quiet 5)
          (add_request ''POST'' (Some (''root'', ''guess'')) ''docs'' ''https://docs.example''))
       \<lparr>db = [\<lparr>Slug = ''wiki'', URL = ''https://wiki.example.com'', CreatedAt = 1\<rparr>],
         adminUser = ''root'', adminPass = ''secret''\<rparr>))
     = StatusUnauthorized
   \<and> snd (serve parse_scheme_host
       (AdminAdd (quiet 5)
          (add_request ''POST'' (Some (''root'', ''guess'')) ''docs'' ''https://docs.example''))
       \<lparr>db = [\<lparr>Slug = ''wiki'', URL = ''https://wiki.example.com'', CreatedAt = 1\<rparr>],
         adminUser = ''root'', adminPass = ''secret''\<rparr>)
     = \<lparr>db = [\<lparr>Slug = ''wiki'', URL = ''https://wiki.example.com'', CreatedAt = 1\<rparr>],
         adminUser = ''root'', adminPass = ''secret''\<rparr>
   \<and> status (fst (serve parse_scheme_host
       (AdminRemove (quiet 5) (remove_request ''POST'' None ''wiki''))
       \<lparr>db = [\<lparr>Slug = ''wiki'', URL = ''https://wiki.example.com'', CreatedAt = 1\<rparr>],
         adminUser = ''root'', adminPass = ''secret''\<rparr>))
     = StatusUnauthorized
   \<and> snd (serve parse_scheme_host
       (AdminRemove (quiet 5) (remove_request ''POST'' None ''wiki''))
       \<lparr>db = [\<lparr>Slug = ''wiki'', URL = ''https://wiki.example.com'', CreatedAt = 1\<rparr>],
         adminUser = ''root'', adminPass = ''secret''\<rparr>)
     = \<lparr>db = [\<lparr>Slug = ''wiki'', URL = ''https://wiki.example.com'', CreatedAt = 1\<rparr>],
         adminUser = ''root'', adminPass = ''secret''\<rparr>"
proof -
  let ?g = "\<lparr>db = [\<lparr>Slug = ''wiki'', URL = ''https://wiki.example.com'', CreatedAt = 1\<rparr>],
         adminUser = ''root'', adminPass = ''secret''\<rparr>"
  let ?ra = "add_request ''POST'' (Some (''root'', ''guess'')) ''docs'' ''https://docs.example''"
  let ?rr = "remove_request ''POST'' None ''wiki''"
  have u: "adminUser ?g \<noteq> ''''" and p: "adminPass ?g \<noteq> ''''" by simp_all
  have a: "BasicAuth ?ra = None
       \<or> (\<exists>user pass. BasicAuth ?ra = Some (user, pass)
             \<and> (user \<noteq> adminUser ?g \<or> pass \<noteq> adminPass ?g))"
    by (simp add: example_defs)
  have b: "BasicAuth ?rr = None
       \<or> (\<exists>user pass. BasicAuth ?rr = Some (user, pass)
             \<and> (user \<noteq> adminUser ?g \<or> pass \<noteq> adminPass ?g))"
    by (simp add: example_defs)
  show ?thesis
    using C4_unauthorized[OF u p a, of "handleAdminAdd parse_scheme_host" "quiet 5"]
      C4_unauthorized[OF u p b, of handleAdminRemove "quiet 5"]
    by (simp add: http_Error_def)
qed

text \<open>
  Claim C5. When the admin user name or the admin password is empty, \<open>basicAuth\<close> passes
  every request to the wrapped handler, whatever credentials it carries; so an add request
  without credentials that passes the validation, for a slug that the store does not have,
  is answered 201 Created (the driver working).
\<close>
theorem C5_auth_disabled:
  assumes "adminUser g = '''' \<or> adminPass g = ''''"
  shows "basicAuth next env r g = next env r g
    \<and> (Method ra = MethodPost \<and> BasicAuth ra = None \<and> Body ra = Some req
        \<and> TrimSpace (add_Slug req) \<noteq> '''' \<and> TrimSpace (add_Slug req) \<noteq> ''admin''
        \<and> isValidURL parse (TrimSpace (add_URL req))
        \<and> \<not> list_ex (\<lambda>l. Slug l = TrimSpace (add_Slug req)) (db g)
        \<and> exec_err env = None
       \<longrightarrow> status (fst (serve parse (AdminAdd env ra) g)) = StatusCreated)"
proof -
  have pass: "basicAuth h env r g = h env r g" for h :: "'c handler" and r
    using assms by (auto simp: basicAuth_def)
  show ?thesis
    by (auto simp: pass handleAdminAdd_success)
qed

text \<open>
  Instances of C5: with no password configured, an add without credentials is answered 201,
  and so is one that carries credentials.
\<close>
theorem C5_auth_disabled_witness:
  "status (fst (serve parse_scheme_host
      (AdminAdd (quiet 5) (add_request ''POST'' None ''wiki'' ''https://wiki.example.com''))
      (start ''root'' ''''))) = StatusCreated
   \<and> basicAuth (handleAdminAdd parse_scheme_host) (quiet 5)
        (add_request ''POST'' (Some (''x'', ''y'')) ''wiki'' ''https://wiki.example.com'')
        (start ''root'' '''')
     = handleAdminAdd parse_scheme_host (quiet 5)
        (add_request ''POST'' (Some (''x'', ''y'')) ''wiki'' ''https://wiki.example.com'')
        (start ''root'' '''')"
proof -
  have h: "adminUser (start ''root'' '''') = '''' \<or> adminPass (start ''root'' '''') = ''''"
    by (simp add: start_def)
  have s: "TrimSpace ''wiki'' = ''wiki''" by (simp add: trim_defs)
  have u: "TrimSpace ''https://wiki.example.com'' = ''https://wiki.example.com''"
    by (simp add: trim_defs)
  have v: "isValidURL parse_scheme_host ''https://wiki.example.com''"
    by (simp add: isValidURL_def example_defs)
  show ?thesis
    using C5_auth_disabled[OF h, of "handleAdminAdd parse_scheme_host" "quiet 5"
        "add_request ''POST'' (Some (''x'', ''y'')) ''wiki'' ''https://wiki.example.com''"
        "add_request ''POST'' None ''wiki'' ''https://wiki.example.com''"
        "\<lparr>add_Slug = ''wiki'', add_URL = ''https://wiki.example.com''\<rparr>" parse_scheme_host]
    by (simp add: s u v) (simp add: example_defs)
qed

text \<open>
  Claim C6. In a store that the server has reached from the empty one: after an add of slug
  \<open>s\<close> that answered 201 Created and a remove of \<open>s\<close> that answered 200 OK, resolving \<open>s\<close>
  (as it was sent, and trimmed) finds no link, and \<open>GET /s\<close> is answered 404 Not Found. And a
  remove of a slug for which the store has no entry affects zero rows (the driver working):
  \<open>removeLink\<close> returns the error \<open>not found\<close> for every such slug, and
  \<open>handleAdminRemove\<close>, for a slug that has passed its validation, answers 404 Not Found,
  the store unchanged.
\<close>
theorem C6_add_remove_resolve:
  assumes "g = serve_all parse es (start user pass)"
    and "status (fst (handleAdminAdd parse env1 r1 g)) = StatusCreated"
    and "Body r1 = Some \<lparr>add_Slug = s, add_URL = u\<rparr>"
    and "g1 = snd (handleAdminAdd parse env1 r1 g)"
    and "status (fst (handleAdminRemove env2 r2 g1)) = StatusOK"
    and "Body r2 = Some \<lparr>remove_Slug = s\<rparr>"
    and "g2 = snd (handleAdminRemove env2 r2 g1)"
    and "exec_err env3 = None"
    and "Path r3 = ''/'' @ s"
  shows "getLink env3 s g2 = Inl (Err ''link not found'')
    \<and> getLink env3 (TrimSpace s) g2 = Inl (Err ''link not found'')
    \<and> status (fst (handleRoot env3 r3 g2)) = StatusNotFound
    \<and> (Method r = MethodPost \<and> Body r = Some \<lparr>remove_Slug = s'\<rparr>
        \<and> TrimSpace s' \<noteq> '''' \<and> TrimSpace s' \<noteq> ''admin''
        \<and> \<not> list_ex (\<lambda>l. Slug l = TrimSpace s') (db g')
        \<and> exec_err env = None \<and> result_err env = None
       \<longrightarrow> status (fst (handleAdminRemove env r g')) = StatusNotFound
           \<and> snd (handleAdminRemove env r g') = g')
    \<and> (\<not> list_ex (\<lambda>l. Slug l = slug) (db g')
        \<and> exec_err env = None \<and> result_err env = None
       \<longrightarrow> removeLink env slug g' = (Some (Err ''not found''), g'))"
proof -
  have ok: "list_all stored_ok (db g)"
    unfolding assms(1) by (rule reachable_stored_ok)
  from handleAdminAdd_created[OF assms(2)] assms(3)
  have first: "Method r1 = MethodPost" "TrimSpace s \<noteq> ''''" "TrimSpace s \<noteq> ''admin''"
    "isValidURL parse (TrimSpace u)" "\<not> list_ex (\<lambda>l. Slug l = TrimSpace s) (db g)"
    "exec_err env1 = None"
    by auto
  have g1: "g1 = g\<lparr>db := db g @ [\<lparr>Slug = TrimSpace s, URL = TrimSpace u, CreatedAt = now env1\<rparr>]\<rparr>"
    using handleAdminAdd_success[OF first(1) assms(3), of parse g env1] first(2-6) assms(4)
    by simp
  have ok1: "list_all stored_ok (db g1)"
    using ok first(2,3) isValidURL_nonempty[OF first(4)]
    by (simp add: g1 stored_ok_def TrimSpace_idem)
  from handleAdminRemove_ok[OF assms(5)] assms(6,7)
  have g2: "g2 = g1\<lparr>db := filter (\<lambda>l. Slug l \<noteq> TrimSpace s) (db g1)\<rparr>"
    by auto
  have gone: "\<not> list_ex (\<lambda>l. Slug l = TrimSpace s) (db g2)"
    by (simp add: g2 list_ex_iff)
  have raw: "\<not> list_ex (\<lambda>l. Slug l = s) (db g2)"
  proof
    assume "list_ex (\<lambda>l. Slug l = s) (db g2)"
    then obtain l where l: "l \<in> set (db g1)" "Slug l = s" "Slug l \<noteq> TrimSpace s"
      by (auto simp: g2 list_ex_iff)
    from ok1 l(1) have "TrimSpace (Slug l) = Slug l"
      by (simp add: list_all_iff stored_ok_def)
    with l(2,3) show False by simp
  qed
  have a: "getLink env3 s g2 = Inl (Err ''link not found'')"
    using raw assms(8) by (rule getLink_absent)
  have b: "getLink env3 (TrimSpace s) g2 = Inl (Err ''link not found'')"
    using gone assms(8) by (rule getLink_absent)
  have "s \<noteq> ''''"
    using first(2) by (auto simp: trim_defs)
  then have path: "TrimPrefix (Path r3) ''/'' = s" "TrimPrefix (Path r3) ''/'' \<noteq> ''''"
    by (simp_all add: assms(9) TrimPrefix_def)
  have c: "status (fst (handleRoot env3 r3 g2)) = StatusNotFound"
    by (simp add: handleRoot_slug[OF path(2)] path(1) a http_NotFound_def http_Error_def)
  have e: "removeLink env x g' = (Some (Err ''not found''), g')"
    if h: "\<not> list_ex (\<lambda>l. Slug l = x) (db g')" "exec_err env = None" "result_err env = None"
    for x
  proof -
    have keep: "filter (\<lambda>l. Slug l \<noteq> x) (db g') = db g'"
      using h(1) by (simp add: list_ex_iff filter_id_conv)
    have none: "filter (\<lambda>l. Slug l = x) (db g') = []"
      using h(1) by (simp add: list_ex_iff filter_empty_conv)
    show ?thesis
      using h(2,3) by (simp add: removeLink_def Let_def keep none)
  qed
  have d: "status (fst (handleAdminRemove env r g')) = StatusNotFound
           \<and> snd (handleAdminRemove env r g') = g'"
    if h: "Method r = MethodPost" "Body r = Some \<lparr>remove_Slug = s'\<rparr>"
      "TrimSpace s' \<noteq> ''''" "TrimSpace s' \<noteq> ''admin''"
      "\<not> list_ex (\<lambda>l. Slug l = TrimSpace s') (db g')"
      "exec_err env = None" "result_err env = None"
    using h(1-4) e[OF h(5-7)] by (simp add: handleAdminRemove_def http_Error_def)
  from a b c d e show ?thesis by blast
qed

text \<open>
  An instance of C6: \<open>'' wiki ''\<close> is added to the empty store and removed; and \<open>docs\<close>,
  which was never added, is removed.
\<close>
theorem C6_add_remove_resolve_witness:
  "getLink (quiet 9) '' wiki ''
     (snd (handleAdminRemove (quiet 7) (remove_request ''POST'' None '' wiki '')
        (snd (handleAdminAdd parse_scheme_host (quiet 5)
           (add_request ''POST'' None '' wiki '' ''https://wiki.example.com'')
           (start '''' '''')))))
     = Inl (Err ''link not found'')
   \<and> getLink (quiet 9) ''wiki''
     (snd (handleAdminRemove (quiet 7) (remove_request ''POST'' None '' wiki '')
        (snd (handleAdminAdd parse_scheme_host (quiet 5)
           (add_request ''POST'' None '' wiki '' ''https://wiki.example.com'')
           (start '''' '''')))))
     = Inl (Err ''link not found'')
   \<and> status (fst (handleRoot (quiet 9) (get_request ''/ wiki '')
     (snd (handleAdminRemove (quiet 7) (remove_request ''POST'' None '' wiki '')
        (snd (handleAdminAdd parse_scheme_host (quiet 5)
           (add_request ''POST'' None '' wiki '' ''https://wiki.example.com'')
           (start '''' '''')))))))
     = StatusNotFound
   \<and> status (fst (handleAdminRemove (quiet 7) (remove_request ''POST'' None ''docs'')
        (start '''' ''''))) = StatusNotFound"
proof -
  let ?r1 = "add_request ''POST'' None '' wiki '' ''https://wiki.example.com''"
  let ?r2 = "remove_request ''POST'' None '' wiki ''"
  let ?g = "serve_all parse_scheme_host [] (start '''' '''')"
  have g: "?g = start '''' ''''" by simp
  have s: "TrimSpace '' wiki '' = ''wiki''" by (simp add: trim_defs)
  have d: "TrimSpace ''docs'' = ''docs''" by (simp add: trim_defs)
  have u: "TrimSpace ''https://wiki.example.com'' = ''https://wiki.example.com''"
    by (simp add: trim_defs)
  have v: "isValidURL parse_scheme_host ''https://wiki.example.com''"
    by (simp add: isValidURL_def example_defs)
  have add: "handleAdminAdd parse_scheme_host (quiet 5) ?r1 ?g =
     (\<lparr>status = StatusCreated, headers = [(''Content-Type'', ''application/json'')],
       body = Json [(''status'', ''created''), (''slug'', ''wiki''),
                    (''url'', ''https://wiki.example.com'')]\<rparr>,
      \<lparr>db = [\<lparr>Slug = ''wiki'', URL = ''https://wiki.example.com'', CreatedAt = 5\<rparr>],
        adminUser = '''', adminPass = ''''\<rparr>)"
    by (simp add: handleAdminAdd_def addLink_def Let_def s u v example_defs)
  have h2: "status (fst (handleAdminAdd parse_scheme_host (quiet 5) ?r1 ?g)) = StatusCreated"
    by (simp only: add fst_conv) simp
  have h3: "Body ?r1 = Some \<lparr>add_Slug = '' wiki '', add_URL = ''https://wiki.example.com''\<rparr>"
    by (simp add: example_defs)
  have h5: "status (fst (handleAdminRemove (quiet 7) ?r2
       (snd (handleAdminAdd parse_scheme_host (quiet 5) ?r1 ?g)))) = StatusOK"
    by (simp only: add snd_conv)
       (simp add: handleAdminRemove_def removeLink_def Let_def s example_defs)
  have h6: "Body ?r2 = Some \<lparr>remove_Slug = '' wiki ''\<rparr>"
    by (simp add: example_defs)
  have h8: "exec_err (quiet 9) = None" by (simp add: example_defs)
  have h9: "Path (get_request ''/ wiki '') = ''/'' @ '' wiki ''" by (simp add: example_defs)
  let ?rd = "remove_request ''POST'' None ''docs''"
  have hb: "Method ?rd = MethodPost \<and> Body ?rd = Some \<lparr>remove_Slug = ''docs''\<rparr>
        \<and> TrimSpace ''docs'' \<noteq> '''' \<and> TrimSpace ''docs'' \<noteq> ''admin''
        \<and> \<not> list_ex (\<lambda>l. Slug l = TrimSpace ''docs'') (db (start '''' ''''))
        \<and> exec_err (quiet 7) = None \<and> result_err (quiet 7) = None"
    by (simp add: d example_defs)
  note c6 = C6_add_remove_resolve[OF refl h2 h3 refl h5 h6 refl h8 h9,
        of ?rd "''docs''" "start '''' ''''" "quiet 7" "''docs''"]
  from c6[unfolded g s] hb show ?thesis by blast
qed

text \<open>
  Claim C7. When the driver works, \<open>getAllLinks\<close> returns the stored links, each as often as
  it is stored, ordered by creation time with the newest first; on the empty store it
  returns the empty sequence, which is a result and not an error, and the listing page is
  answered 200 OK.
\<close>
theorem C7_getAllLinks_newest_first:
  assumes "exec_err env = None" and "result_err env = None"
  shows "(\<exists>links. getAllLinks env g = Inr links
        \<and> sorted_wrt (\<lambda>a b. CreatedAt b \<le> CreatedAt a) links
        \<and> mset links = mset (db g))
    \<and> (db g = [] \<longrightarrow> getAllLinks env g = Inr []
          \<and> handleListLinks env r g =
              (\<lparr>status = StatusOK, headers = [(''Content-Type'', ''text/html; charset=utf-8'')],
                body = Listing []\<rparr>, g))"
proof -
  have all: "getAllLinks env g = Inr (order_by_created_at_desc (db g))"
    using assms by (simp add: getAllLinks_def)
  have "\<exists>links. getAllLinks env g = Inr links
        \<and> sorted_wrt (\<lambda>a b. CreatedAt b \<le> CreatedAt a) links
        \<and> mset links = mset (db g)"
    unfolding all using sorted_order_by[of "db g"] mset_order_by[of "db g"] by blast
  moreover have "getAllLinks env g = Inr []
          \<and> handleListLinks env r g =
              (\<lparr>status = StatusOK, headers = [(''Content-Type'', ''text/html; charset=utf-8'')],
                body = Listing []\<rparr>, g)" if "db g = []"
    using that by (simp add: handleListLinks_def all order_by_created_at_desc_def)
  ultimately show ?thesis by blast
qed

text \<open>
  Instances of C7: three links inserted at the times 3, 8 and 5 are listed in the order 8, 5,
  3; the empty store lists nothing.
\<close>
theorem C7_getAllLinks_newest_first_witness:
  "getAllLinks (quiet 9)
      \<lparr>db = [\<lparr>Slug = ''a'', URL = ''https://a.example'', CreatedAt = 3\<rparr>,
              \<lparr>Slug = ''b'', URL = ''https://b.example'', CreatedAt = 8\<rparr>,
              \<lparr>Slug = ''c'', URL = ''https://c.example'', CreatedAt = 5\<rparr>],
        adminUser = '''', adminPass = ''''\<rparr>
     = Inr [\<lparr>Slug = ''b'', URL = ''https://b.example'', CreatedAt = 8\<rparr>,
            \<lparr>Slug = ''c'', URL = ''https://c.example'', CreatedAt = 5\<rparr>,
            \<lparr>Slug = ''a'', URL = ''https://a.example'', CreatedAt = 3\<rparr>]
   \<and> sorted_wrt (\<lambda>a b. CreatedAt b \<le> CreatedAt a)
        [\<lparr>Slug = ''b'', URL = ''https://b.example'', CreatedAt = 8\<rparr>,
         \<lparr>Slug = ''c'', URL = ''https://c.example'', CreatedAt = 5\<rparr>,
         \<lparr>Slug = ''a'', URL = ''https://a.example'', CreatedAt = 3::nat\<rparr>]
   \<and> getAllLinks (quiet 9) (start '''' '''') = Inr []"
proof -
  let ?g = "\<lparr>db = [\<lparr>Slug = ''a'', URL = ''https://a.example'', CreatedAt = 3\<rparr>,
              \<lparr>Slug = ''b'', URL = ''https://b.example'', CreatedAt = 8\<rparr>,
              \<lparr>Slug = ''c'', URL = ''https://c.example'', CreatedAt = 5\<rparr>],
        adminUser = '''', adminPass = ''''\<rparr>"
  have e: "exec_err (quiet 9) = None" and r: "result_err (quiet 9) = None"
    by (simp_all add: quiet_def)
  have run: "getAllLinks (quiet 9) ?g
     = Inr [\<lparr>Slug = ''b'', URL = ''https://b.example'', CreatedAt = 8\<rparr>,
            \<lparr>Slug = ''c'', URL = ''https://c.example'', CreatedAt = 5\<rparr>,
            \<lparr>Slug = ''a'', URL = ''https://a.example'', CreatedAt = 3\<rparr>]"
    by (simp add: getAllLinks_def order_by_created_at_desc_def quiet_def)
  have empty: "db (start '''' '''') = []" by (simp add: start_def)
  from C7_getAllLinks_newest_first[OF e r, of ?g] run
  have "sorted_wrt (\<lambda>a b. CreatedAt b \<le> CreatedAt a)
        [\<lparr>Slug = ''b'', URL = ''https://b.example'', CreatedAt = 8\<rparr>,
         \<lparr>Slug = ''c'', URL = ''https://c.example'', CreatedAt = 5\<rparr>,
         \<lparr>Slug = ''a'', URL = ''https://a.example'', CreatedAt = 3::nat\<rparr>]"
    by auto
  moreover from C7_getAllLinks_newest_first[OF e r, of "start '''' ''''"] empty
  have "getAllLinks (quiet 9) (start '''' '''') = Inr []"
    by blast
  ultimately show ?thesis using run by simp
qed

text \<open>
  Claim C8. In every state that the server reaches from the empty store by any sequence of
  requests to its three routes, with any admin credentials configured, whatever the requests
  carry and whatever the driver does, no stored link has an empty slug, an empty URL or the
  slug \<open>admin\<close>.
\<close>
theorem C8_stored_links_valid:
  "\<forall>l \<in> set (db (serve_all parse es (start user pass))).
     Slug l \<noteq> '''' \<and> URL l \<noteq> '''' \<and> Slug l \<noteq> ''admin''"
  using reachable_stored_ok[of parse es user pass]
  by (simp add: list_all_iff stored_ok_def)

text \<open>
  An instance of C8: after adds of \<open>admin\<close>, of an empty slug, of a URL that is not valid and
  of \<open>wiki\<close>, the store holds \<open>wiki\<close> alone.
\<close>
theorem C8_stored_links_valid_witness:
  "\<lparr>Slug = ''wiki'', URL = ''https://wiki.example.com'', CreatedAt = 8\<rparr>
     \<in> set (db (serve_all parse_scheme_host
         [AdminAdd (quiet 5) (add_request ''POST'' None ''admin'' ''https://a.example''),
          AdminAdd (quiet 6) (add_request ''POST'' None ''  '' ''https://b.example''),
          AdminAdd (quiet 7) (add_request ''POST'' None ''docs'' ''''),
          AdminAdd (quiet 8) (add_request ''POST'' None ''wiki'' ''https://wiki.example.com'')]
         (start '''' '''')))
   \<and> db (serve_all parse_scheme_host
         [AdminAdd (quiet 5) (add_request ''POST'' None ''admin'' ''https://a.example''),
          AdminAdd (quiet 6) (add_request ''POST'' None ''  '' ''https://b.example''),
          AdminAdd (quiet 7) (add_request ''POST'' None ''docs'' ''''),
          AdminAdd (quiet 8) (add_request ''POST'' None ''wiki'' ''https://wiki.example.com'')]
         (start '''' ''''))
      = [\<lparr>Slug = ''wiki'', URL = ''https://wiki.example.com'', CreatedAt = 8\<rparr>]
   \<and> Slug \<lparr>Slug = ''wiki'', URL = ''https://wiki.example.com'', CreatedAt = 8\<rparr> \<noteq> ''''
   \<and> URL \<lparr>Slug = ''wiki'', URL = ''https://wiki.example.com'', CreatedAt = 8\<rparr> \<noteq> ''''
   \<and> Slug \<lparr>Slug = ''wiki'', URL = ''https://wiki.example.com'', CreatedAt = 8\<rparr> \<noteq> ''admin''"
proof -
  let ?es = "[AdminAdd (quiet 5) (add_request ''POST'' None ''admin'' ''https://a.example''),
          AdminAdd (quiet 6) (add_request ''POST'' None ''  '' ''https://b.example''),
          AdminAdd (quiet 7) (add_request ''POST'' None ''docs'' ''''),
          AdminAdd (quiet 8) (add_request ''POST'' None ''wiki'' ''https://wiki.example.com'')]"
  have t: "TrimSpace ''admin'' = ''admin''" "TrimSpace ''  '' = ''''" "TrimSpace ''docs'' = ''docs''"
    "TrimSpace ''wiki'' = ''wiki''" "TrimSpace '''' = ''''"
    "TrimSpace ''https://wiki.example.com'' = ''https://wiki.example.com''"
    by (simp_all add: trim_defs)
  have v: "isValidURL parse_scheme_host ''https://wiki.example.com''"
    "\<not> isValidURL parse_scheme_host ''''"
    by (simp_all add: isValidURL_def example_defs)
  have run: "db (serve_all parse_scheme_host ?es (start '''' ''''))
      = [\<lparr>Slug = ''wiki'', URL = ''https://wiki.example.com'', CreatedAt = 8\<rparr>]"
    by (simp add: basicAuth_def handleAdminAdd_def addLink_def Let_def t v example_defs)
  have mem: "\<lparr>Slug = ''wiki'', URL = ''https://wiki.example.com'', CreatedAt = 8\<rparr>
     \<in> set (db (serve_all parse_scheme_host ?es (start '''' '''')))"
    unfolding run by simp
  from C8_stored_links_valid[of parse_scheme_host ?es "''''" "''''"] mem run
  show ?thesis by blast
qed

text \<open>
  Claim C9, as stated, at a concrete input. With the admin credentials \<open>root\<close> and \<open>secret\<close>
  configured, a GET of \<open>/admin/add\<close> without credentials is answered 401 Unauthorized, not
  405: \<open>basicAuth\<close> answers before \<open>handleAdminAdd\<close> looks at the method.
\<close>
theorem C9_counterexample:
  "Method (add_request ''GET'' None ''wiki'' ''https://wiki.example.com'') \<noteq> MethodPost
   \<and> status (fst (serve parse_scheme_host
        (AdminAdd (quiet 5) (add_request ''GET'' None ''wiki'' ''https://wiki.example.com''))
        (start ''root'' ''secret''))) = StatusUnauthorized
   \<and> status (fst (serve parse_scheme_host
        (AdminAdd (quiet 5) (add_request ''GET'' None ''wiki'' ''https://wiki.example.com''))
        (start ''root'' ''secret''))) \<noteq> StatusMethodNotAllowed"
  by (simp add: basicAuth_def http_Error_def Status_defs example_defs)

text \<open>
  Claim C9, amended. For every request to \<open>/admin/add\<close> or \<open>/admin/remove\<close> whose method is
  not POST: when no admin credentials are configured (the user name or the password is
  empty), or the request presents the configured pair, the answer is 405 Method Not Allowed
  and the globals are unchanged; when the credentials are configured and those of the
  request are absent or wrong, the answer is 401 Unauthorized.
\<close>
theorem C9_method_not_allowed:
  assumes "Method ra \<noteq> MethodPost" and "Method rr \<noteq> MethodPost"
  shows "(adminUser g = '''' \<or> adminPass g = '''' \<or> BasicAuth ra = Some (adminUser g, adminPass g)
       \<longrightarrow> serve parse (AdminAdd env ra) g =
             (http_Error [] ''Method not allowed'' StatusMethodNotAllowed, g))
    \<and> (adminUser g = '''' \<or> adminPass g = '''' \<or> BasicAuth rr = Some (adminUser g, adminPass g)
       \<longrightarrow> serve parse (AdminRemove env rr) g =
             (http_Error [] ''Method not allowed'' StatusMethodNotAllowed, g))
    \<and> (adminUser g \<noteq> '''' \<and> adminPass g \<noteq> '''' \<and> BasicAuth ra \<noteq> Some (adminUser g, adminPass g)
       \<longrightarrow> status (fst (serve parse (AdminAdd env ra) g)) = StatusUnauthorized)
    \<and> (adminUser g \<noteq> '''' \<and> adminPass g \<noteq> '''' \<and> BasicAuth rr \<noteq> Some (adminUser g, adminPass g)
       \<longrightarrow> status (fst (serve parse (AdminRemove env rr) g)) = StatusUnauthorized)"
proof -
  have a: "handleAdminAdd parse env ra g =
      (http_Error [] ''Method not allowed'' StatusMethodNotAllowed, g)"
    using assms(1) by (simp add: handleAdminAdd_def)
  have b: "handleAdminRemove env rr g =
      (http_Error [] ''Method not allowed'' StatusMethodNotAllowed, g)"
    using assms(2) by (simp add: handleAdminRemove_def)
  have pass: "basicAuth h env r g = h env r g"
    if "adminUser g = '''' \<or> adminPass g = '''' \<or> BasicAuth r = Some (adminUser g, adminPass g)"
    for h :: "'c handler" and r
    using that by (auto simp: basicAuth_def)
  have stop: "status (fst (basicAuth h env r g)) = StatusUnauthorized"
    if conf: "adminUser g \<noteq> ''''" "adminPass g \<noteq> ''''"
      and wrong: "BasicAuth r \<noteq> Some (adminUser g, adminPass g)"
    for h :: "'c handler" and r
  proof (cases "BasicAuth r")
    case None
    with conf show ?thesis by (simp add: basicAuth_def http_Error_def)
  next
    case (Some up)
    obtain a b where up: "up = (a, b)" by (cases up)
    from wrong Some up have "a \<noteq> adminUser g \<or> b \<noteq> adminPass g" by simp
    with conf Some up show ?thesis by (simp add: basicAuth_def http_Error_def)
  qed
  show ?thesis
    using pass[of ra "handleAdminAdd parse"] pass[of rr handleAdminRemove]
      stop[of ra "handleAdminAdd parse"] stop[of rr handleAdminRemove]
    by (simp add: a b)
qed

text \<open>
  Instances of C9: a GET of \<open>/admin/add\<close> with the configured credentials and a DELETE of
  \<open>/admin/remove\<close> without credentials, when a password is configured.
\<close>
theorem C9_method_not_allowed_witness:
  "status (fst (serve parse_scheme_host
      (AdminAdd (quiet 5)
        (add_request ''GET'' (Some (''root'', ''secret'')) ''wiki'' ''https://wiki.example.com''))
      (start ''root'' ''secret''))) = StatusMethodNotAllowed
   \<and> status (fst (serve parse_scheme_host
      (AdminRemove (quiet 5) (remove_request ''DELETE'' None ''wiki''))
      (start ''root'' ''secret''))) = StatusUnauthorized"
proof -
  let ?ra = "add_request ''GET'' (Some (''root'', ''secret'')) ''wiki'' ''https://wiki.example.com''"
  let ?rr = "remove_request ''DELETE'' None ''wiki''"
  let ?g = "start ''root'' ''secret''"
  have h1: "Method ?ra \<noteq> MethodPost" by (simp add: example_defs)
  have h2: "Method ?rr \<noteq> MethodPost" by (simp add: example_defs)
  have pa: "adminUser ?g = '''' \<or> adminPass ?g = ''''
      \<or> BasicAuth ?ra = Some (adminUser ?g, adminPass ?g)"
    by (simp add: example_defs)
  have pr: "adminUser ?g \<noteq> '''' \<and> adminPass ?g \<noteq> ''''
      \<and> BasicAuth ?rr \<noteq> Some (adminUser ?g, adminPass ?g)"
    by (simp add: example_defs)
  from C9_method_not_allowed[OF h1 h2, of ?g parse_scheme_host "quiet 5"] pa pr
  have "serve parse_scheme_host (AdminAdd (quiet 5) ?ra) ?g =
             (http_Error [] ''Method not allowed'' StatusMethodNotAllowed, ?g)"
    and "status (fst (serve parse_scheme_host (AdminRemove (quiet 5) ?rr) ?g)) = StatusUnauthorized"
    by blast+
  then show ?thesis by (simp add: http_Error_def)
qed

text \<open>
  Claim C10. For every request to \<open>/<slug>\<close> with a non-empty slug (\<open>handleRoot\<close> does not
  look at the method, so for every GET): whatever error \<open>getLink\<close> returns, the absence of
  the slug or a failure of the driver, the answer is the 404 of \<open>http.NotFound\<close>; a failure
  of the driver is always answered so, also when the slug is stored; and the answer is never
  500 Internal Server Error.
\<close>
theorem C10_lookup_error_is_404:
  assumes "TrimPrefix (Path r) ''/'' \<noteq> ''''"
  shows "(\<forall>err. getLink env (TrimPrefix (Path r) ''/'') g = Inl err
           \<longrightarrow> handleRoot env r g = (http_NotFound, g))
    \<and> status http_NotFound = StatusNotFound
    \<and> (exec_err env \<noteq> None \<longrightarrow> status (fst (handleRoot env r g)) = StatusNotFound)
    \<and> status (fst (handleRoot env r g)) \<noteq> StatusInternalServerError"
proof -
  note root = handleRoot_slug[OF assms, of env g]
  have nf: "status http_NotFound = StatusNotFound"
    by (simp add: http_NotFound_def http_Error_def)
  have a: "handleRoot env r g = (http_NotFound, g)"
    if "getLink env (TrimPrefix (Path r) ''/'') g = Inl err" for err
    using that by (simp add: root)
  have b: "status (fst (handleRoot env r g)) = StatusNotFound" if "exec_err env \<noteq> None"
  proof -
    from that obtain e where "exec_err env = Some e" by auto
    from getLink_exec_err[OF this] obtain err
      where "getLink env (TrimPrefix (Path r) ''/'') g = Inl err" by blast
    then show ?thesis by (simp add: a nf)
  qed
  have c: "status (fst (handleRoot env r g)) \<noteq> StatusInternalServerError"
    by (cases "getLink env (TrimPrefix (Path r) ''/'') g")
       (simp_all add: root http_NotFound_def http_Error_def http_Redirect_def Status_defs)
  from a nf b c show ?thesis by blast
qed

text \<open>
  Instances of C10: \<open>GET /wiki\<close> while the driver fails is answered 404 although \<open>wiki\<close> is
  stored; \<open>GET /docs\<close>, which is not stored, is answered 404 too.
\<close>
theorem C10_lookup_error_is_404_witness:
  "status (fst (handleRoot (failing 9 (Err ''database is locked'')) (get_request ''/wiki'')
      \<lparr>db = [\<lparr>Slug = ''wiki'', URL = ''https://wiki.example.com'', CreatedAt = 1\<rparr>],
        adminUser = '''', adminPass = ''''\<rparr>)) = StatusNotFound
   \<and> handleRoot (quiet 9) (get_request ''/docs'')
      \<lparr>db = [\<lparr>Slug = ''wiki'', URL = ''https://wiki.example.com'', CreatedAt = 1\<rparr>],
        adminUser = '''', adminPass = ''''\<rparr>
     = (http_NotFound,
        \<lparr>db = [\<lparr>Slug = ''wiki'', URL = ''https://wiki.example.com'', CreatedAt = 1\<rparr>],
          adminUser = '''', adminPass = ''''\<rparr>)"
proof -
  let ?g = "\<lparr>db = [\<lparr>Slug = ''wiki'', URL = ''https://wiki.example.com'', CreatedAt = 1\<rparr>],
        adminUser = '''', adminPass = ''''\<rparr>"
  have p1: "TrimPrefix (Path (get_request ''/wiki'')) ''/'' \<noteq> ''''"
    by (simp add: TrimPrefix_def example_defs)
  have p2: "TrimPrefix (Path (get_request ''/docs'')) ''/'' \<noteq> ''''"
    by (simp add: TrimPrefix_def example_defs)
  have f: "exec_err (failing 9 (Err ''database is locked'')) \<noteq> None"
    by (simp add: failing_def)
  have d: "getLink (quiet 9) (TrimPrefix (Path (get_request ''/docs'')) ''/'') ?g
      = Inl (Err ''link not found'')"
    by (simp add: getLink_def QueryRow_Scan_def TrimPrefix_def example_defs)
  from C10_lookup_error_is_404[OF p1, of "failing 9 (Err ''database is locked'')" ?g] f
  have "status (fst (handleRoot (failing 9 (Err ''database is locked'')) (get_request ''/wiki'') ?g))
      = StatusNotFound"
    by blast
  moreover from C10_lookup_error_is_404[OF p2, of "quiet 9" ?g] d
  have "handleRoot (quiet 9) (get_request ''/docs'') ?g = (http_NotFound, ?g)"
    by blast
  ultimately show ?thesis by simp
qed

end
